theory Spec2Isabelle
  imports Main "HOL-Library.Word"
begin

unbundle bit_operations_syntax

section \<open>Flags: a bit mask over an enumeration (util.hpp, lines 15-44)\<close>

text \<open>
  \<^verbatim>\<open>Flags<E>\<close> stores one value of \<^verbatim>\<open>InnerType = std::underlying_type_t<E>\<close>.
  The underlying type is an integer type of some width, modelled as \<open>'w word\<close>; the
  operators used by the class (\<^verbatim>\<open>|\<close>, \<^verbatim>\<open>&\<close>, \<^verbatim>\<open>==\<close>) act on the bit pattern alone, so the
  signedness of the underlying type plays no role. For an underlying type narrower than
  \<^verbatim>\<open>int\<close> the operands of \<^verbatim>\<open>|\<close> and \<^verbatim>\<open>&\<close> are promoted and the result is converted back by
  \<^verbatim>\<open>Flags(Type)\<close>, which gives the bitwise operation at the width of \<^verbatim>\<open>InnerType\<close>.

  The template parameter \<^verbatim>\<open>E\<close> is an enumeration declared elsewhere. It enters the
  class only through \<^verbatim>\<open>static_cast<InnerType>(flag)\<close>, so an enumeration is given here by
  the function \<open>E :: 'e \<Rightarrow> 'w word\<close> that sends each enumerator to its value.
\<close>

record (overloaded) 'w Flags =
  flags :: "'w word"

definition toInnerType :: "('e \<Rightarrow> 'w::len word) \<Rightarrow> 'e \<Rightarrow> 'w word" where
  "toInnerType E flag = E flag"

text \<open>The three constructors: \<^verbatim>\<open>Flags(E flag)\<close>, \<^verbatim>\<open>Flags(Type f)\<close> and \<^verbatim>\<open>Flags()\<close>.\<close>

definition Flags_E :: "('e \<Rightarrow> 'w::len word) \<Rightarrow> 'e \<Rightarrow> 'w Flags" where
  "Flags_E E flag = \<lparr>flags = toInnerType E flag\<rparr>"

definition Flags_Type :: "'w::len word \<Rightarrow> 'w Flags" where
  "Flags_Type f = \<lparr>flags = f\<rparr>"

definition Flags_empty :: "'w::len Flags" where
  "Flags_empty = \<lparr>flags = 0\<rparr>"

text \<open>\<^verbatim>\<open>operator|\<close> and \<^verbatim>\<open>operator&\<close>, each with a \<^verbatim>\<open>Flags\<close> and an \<^verbatim>\<open>E\<close> overload.\<close>

definition or_Flags :: "'w::len Flags \<Rightarrow> 'w Flags \<Rightarrow> 'w Flags" where
  "or_Flags this f = Flags_Type (flags this OR flags f)"

definition or_E :: "('e \<Rightarrow> 'w::len word) \<Rightarrow> 'w Flags \<Rightarrow> 'e \<Rightarrow> 'w Flags" where
  "or_E E this flag = Flags_Type (flags this OR toInnerType E flag)"

definition and_Flags :: "'w::len Flags \<Rightarrow> 'w Flags \<Rightarrow> 'w Flags" where
  "and_Flags this f = Flags_Type (flags this AND flags f)"

definition and_E :: "('e \<Rightarrow> 'w::len word) \<Rightarrow> 'w Flags \<Rightarrow> 'e \<Rightarrow> 'w Flags" where
  "and_E E this flag = Flags_Type (flags this AND toInnerType E flag)"

text \<open>The two conversions: \<^verbatim>\<open>operator bool\<close> and \<^verbatim>\<open>operator Type\<close>.\<close>

definition to_bool :: "'w::len Flags \<Rightarrow> bool" where
  "to_bool this = (\<not> (flags this = 0))"

definition to_Type :: "'w::len Flags \<Rightarrow> 'w word" where
  "to_Type this = flags this"

section \<open>FileDescriptor (util.hpp, lines 47-61)\<close>

text \<open>
  \<^verbatim>\<open>uv_file\<close> is libuv's name for \<^verbatim>\<open>int\<close>; the wrapper stores the value and hands it back
  unchanged, with no arithmetic on it.
\<close>

type_synonym uv_file = int

datatype FileDescriptor = FileDescriptor (fd: uv_file)

definition fd_to_Type :: "FileDescriptor \<Rightarrow> uv_file" where
  "fd_to_Type this = fd this"

definition STDIN :: FileDescriptor where
  "STDIN = FileDescriptor 0"

definition STDOUT :: FileDescriptor where
  "STDOUT = FileDescriptor 1"

definition STDERR :: FileDescriptor where
  "STDERR = FileDescriptor 2"

section \<open>Addr (util.hpp, line 68)\<close>

text \<open>
  \<^verbatim>\<open>struct Addr { std::string ip; unsigned int port; }\<close>. The functions below build a
  \<^verbatim>\<open>std::pair<std::string, unsigned int>\<close> and return it through
  \<^verbatim>\<open>reinterpret_cast<Addr&>\<close>; \<open>mutant\<close> is that cast, first member to \<open>ip\<close> and second
  member to \<open>port\<close>, which is what the idiom named in the source comment relies on.
\<close>

record Addr =
  ip :: string
  port :: "32 word"

definition Addr_default :: Addr where
  "Addr_default = \<lparr>ip = [], port = 0\<rparr>"

definition mutant :: "string \<times> 32 word \<Rightarrow> Addr" where
  "mutant addr = \<lparr>ip = fst addr, port = snd addr\<rparr>"

section \<open>What the header takes from the platform and from libuv\<close>

text \<open>
  The two address structures come from the system headers that \<^verbatim>\<open>uv.h\<close> includes. Only
  their members matter here. Both keep the port in network byte order; the member is
  called \<^verbatim>\<open>sin_port\<close> in \<^verbatim>\<open>sockaddr_in\<close> and \<^verbatim>\<open>sin6_port\<close> in \<^verbatim>\<open>sockaddr_in6\<close>.
\<close>

record sockaddr_in =
  sin_family :: "16 word"
  sin_port :: "16 word"
  sin_addr :: "32 word"

record sockaddr_in6 =
  sin6_family :: "16 word"
  sin6_port :: "16 word"
  sin6_flowinfo :: "32 word"
  sin6_addr :: "8 word list"
  sin6_scope_id :: "32 word"

text \<open>
  Member lookup by name, for the members of type \<^verbatim>\<open>uint16_t\<close>. The lookup belongs to the
  structure type, not to a value of it: \<open>Some\<close> the selector when the structure declares a
  member of that name, \<open>None\<close> when it does not (where a C++ compiler rejects the
  expression).
\<close>

definition sockaddr_in_member :: "string \<Rightarrow> (sockaddr_in \<Rightarrow> 16 word) option" where
  "sockaddr_in_member m =
     (if m = ''sin_family'' then Some sin_family
      else if m = ''sin_port'' then Some sin_port
      else None)"

definition sockaddr_in6_member :: "string \<Rightarrow> (sockaddr_in6 \<Rightarrow> 16 word) option" where
  "sockaddr_in6_member m =
     (if m = ''sin6_family'' then Some sin6_family
      else if m = ''sin6_port'' then Some sin6_port
      else None)"

text \<open>
  \<^verbatim>\<open>sockaddr_storage\<close> is raw memory, large enough for either structure (128 bytes).
\<close>

type_synonym sockaddr_storage = "8 word list"

definition sizeof_sockaddr_storage :: int where
  "sizeof_sockaddr_storage = 128"

text \<open>
  Everything else the two \<^verbatim>\<open>address\<close> templates call is outside this header and is a
  parameter of the model:
  \<^item> the four libuv primitives. A construct primitive returns its status and the structure
    it wrote. A render primitive receives the structure and the size of the destination,
    and returns its status and the characters the destination array holds afterwards;
  \<^item> \<^verbatim>\<open>ntohs\<close>, which depends on the byte order of the host;
  \<^item> how the bytes of a \<^verbatim>\<open>sockaddr_storage\<close> read when the storage is accessed through a
    pointer to one of the two structures (\<^verbatim>\<open>reinterpret_cast\<close>), which depends on the
    platform's layout.
\<close>

record platform =
  uv_ip4_addr :: "string \<Rightarrow> int \<Rightarrow> int \<times> sockaddr_in"
  uv_ip6_addr :: "string \<Rightarrow> int \<Rightarrow> int \<times> sockaddr_in6"
  uv_ip4_name :: "sockaddr_in \<Rightarrow> int \<Rightarrow> int \<times> string"
  uv_ip6_name :: "sockaddr_in6 \<Rightarrow> int \<Rightarrow> int \<times> string"
  ntohs :: "16 word \<Rightarrow> 16 word"
  as_sockaddr_in :: "sockaddr_storage \<Rightarrow> sockaddr_in"
  as_sockaddr_in6 :: "sockaddr_storage \<Rightarrow> sockaddr_in6"

section \<open>IpTraits (util.hpp, lines 79-107)\<close>

text \<open>
  \<^verbatim>\<open>IpTraits<I>\<close> has the members \<^verbatim>\<open>Type\<close>, \<^verbatim>\<open>AddrFunc\<close> and \<^verbatim>\<open>NameFunc\<close>. The type member is the
  type parameter \<open>'sa\<close> of the record; what the templates do with that type, naming a
  member of it and viewing a \<^verbatim>\<open>sockaddr_storage\<close> through a pointer to it, are the fields
  \<open>Type_member\<close> and \<open>Type_cast\<close>. The tags \<^verbatim>\<open>IPv4\<close> and \<^verbatim>\<open>IPv6\<close> only select one
  of the two specialisations, so \<^verbatim>\<open>address<IPv4>\<close> is \<open>address uv (IpTraits_IPv4 uv)\<close> and
  \<^verbatim>\<open>address<IPv6>\<close> is \<open>address uv (IpTraits_IPv6 uv)\<close>.
\<close>

record 'sa IpTraits =
  Type_member :: "string \<Rightarrow> ('sa \<Rightarrow> 16 word) option"
  Type_cast :: "sockaddr_storage \<Rightarrow> 'sa"
  AddrFunc :: "string \<Rightarrow> int \<Rightarrow> int \<times> 'sa"
  NameFunc :: "'sa \<Rightarrow> int \<Rightarrow> int \<times> string"

definition IpTraits_IPv4 :: "platform \<Rightarrow> sockaddr_in IpTraits" where
  "IpTraits_IPv4 uv =
     \<lparr>Type_member = sockaddr_in_member, Type_cast = as_sockaddr_in uv,
      AddrFunc = uv_ip4_addr uv, NameFunc = uv_ip4_name uv\<rparr>"

definition IpTraits_IPv6 :: "platform \<Rightarrow> sockaddr_in6 IpTraits" where
  "IpTraits_IPv6 uv =
     \<lparr>Type_member = sockaddr_in6_member, Type_cast = as_sockaddr_in6 uv,
      AddrFunc = uv_ip6_addr uv, NameFunc = uv_ip6_name uv\<rparr>"

section \<open>The two address templates (util.hpp, lines 110-143)\<close>

text \<open>
  \<^verbatim>\<open>std::string{name}\<close> copies the characters of the array up to the first NUL.
\<close>

definition std_string :: "string \<Rightarrow> string" where
  "std_string name = takeWhile (\<lambda>c. c \<noteq> CHR 0x00) name"

text \<open>
  The expression \<^verbatim>\<open>aptr->sin_port\<close> (line 118) names a member of \<^verbatim>\<open>Traits::Type\<close>. A template
  is checked for this when it is instantiated, and the compiler rejects the whole
  instantiation when the structure has no such member: the function then does not exist,
  on any path. The model resolves the name first and returns the error value \<open>No_member\<close>
  for every argument when the lookup fails.
\<close>

datatype error = No_member string

text \<open>
  \<^verbatim>\<open>address<I>(aptr, len)\<close>, lines 110-126. The status and the length are \<^verbatim>\<open>int\<close>s that
  are only compared with 0 and passed on.
\<close>

definition address :: "platform \<Rightarrow> 'sa IpTraits \<Rightarrow> 'sa \<Rightarrow> int \<Rightarrow> error + Addr" where
  "address uv Traits aptr len =
     (case Type_member Traits ''sin_port'' of
        None \<Rightarrow> Inl (No_member ''sin_port'')
      | Some sin_port_of \<Rightarrow>
          (let addr = ([], 0);
               (err, name) = NameFunc Traits aptr len
           in if 0 = err
              then Inr (mutant (std_string name, ucast (ntohs uv (sin_port_of aptr))))
              else Inr (mutant addr)))"

text \<open>
  \<^verbatim>\<open>address<I>(f, handle)\<close>, lines 129-143. The local \<^verbatim>\<open>ssto\<close> is not initialised; what it
  holds before the accessor runs is the argument \<open>ssto0\<close>. The accessor receives the
  handle, the storage and the length, and returns its status together with the storage and
  the length as it left them. Line 139 instantiates the storage overload for the same
  tag, so this template exists exactly when that one does: the same name is resolved
  first, and the error is returned for every accessor when the lookup fails.
\<close>

definition address_handle ::
  "platform \<Rightarrow> 'sa IpTraits \<Rightarrow> ('u \<Rightarrow> sockaddr_storage \<Rightarrow> int \<Rightarrow> int \<times> sockaddr_storage \<times> int)
     \<Rightarrow> 'u \<Rightarrow> sockaddr_storage \<Rightarrow> error + Addr" where
  "address_handle uv Traits f handle ssto0 =
     (case Type_member Traits ''sin_port'' of
        None \<Rightarrow> Inl (No_member ''sin_port'')
      | Some sin_port_of \<Rightarrow>
          (let addr = Addr_default;
               (err, ssto, len) = f handle ssto0 sizeof_sockaddr_storage
           in if 0 = err
              then address uv Traits (Type_cast Traits ssto) len
              else Inr addr))"

section \<open>A concrete platform, for evaluating the templates\<close>

text \<open>
  The theorems below hold for every platform. To evaluate them on concrete inputs, this
  section fixes one: a little-endian host with the Linux layout of the two structures
  (\<^verbatim>\<open>AF_INET = 2\<close>, \<^verbatim>\<open>AF_INET6 = 10\<close>), and stand-ins for the libuv primitives that answer as
  libuv does on the inputs used here: the construct primitives accept the loopback text
  of their family and report \<^verbatim>\<open>UV_EINVAL\<close> (-22) for any other text; \<open>linux_ip4_name\<close> prints the
  dotted quad; \<open>linux_ip6_name\<close> prints \<^verbatim>\<open>::1\<close> and \<^verbatim>\<open>::\<close> and reports failure for any other
  address; both render primitives report \<^verbatim>\<open>UV_ENOSPC\<close> (-28) when the text and its NUL do
  not fit the destination.
\<close>

definition bswap16 :: "16 word \<Rightarrow> 16 word" where
  "bswap16 w = push_bit 8 w OR drop_bit 8 w"

definition le16 :: "8 word \<Rightarrow> 8 word \<Rightarrow> 16 word" where
  "le16 b0 b1 = ucast b0 OR push_bit 8 (ucast b1)"

definition le32 :: "8 word \<Rightarrow> 8 word \<Rightarrow> 8 word \<Rightarrow> 8 word \<Rightarrow> 32 word" where
  "le32 b0 b1 b2 b3 =
     ucast b0 OR push_bit 8 (ucast b1) OR push_bit 16 (ucast b2) OR push_bit 24 (ucast b3)"

definition byte_at :: "sockaddr_storage \<Rightarrow> nat \<Rightarrow> 8 word" where
  "byte_at m i = (if i < length m then m ! i else 0)"

definition linux_as_sockaddr_in :: "sockaddr_storage \<Rightarrow> sockaddr_in" where
  "linux_as_sockaddr_in m =
     \<lparr>sin_family = le16 (byte_at m 0) (byte_at m 1),
      sin_port = le16 (byte_at m 2) (byte_at m 3),
      sin_addr = le32 (byte_at m 4) (byte_at m 5) (byte_at m 6) (byte_at m 7)\<rparr>"

definition linux_as_sockaddr_in6 :: "sockaddr_storage \<Rightarrow> sockaddr_in6" where
  "linux_as_sockaddr_in6 m =
     \<lparr>sin6_family = le16 (byte_at m 0) (byte_at m 1),
      sin6_port = le16 (byte_at m 2) (byte_at m 3),
      sin6_flowinfo = le32 (byte_at m 4) (byte_at m 5) (byte_at m 6) (byte_at m 7),
      sin6_addr = map (byte_at m) [8 ..< 24],
      sin6_scope_id = le32 (byte_at m 24) (byte_at m 25) (byte_at m 26) (byte_at m 27)\<rparr>"

definition dec_u8 :: "nat \<Rightarrow> string" where
  "dec_u8 n =
     (if n < 10 then [''0123456789'' ! n]
      else if n < 100 then [''0123456789'' ! (n div 10), ''0123456789'' ! (n mod 10)]
      else [''0123456789'' ! (n div 100), ''0123456789'' ! (n div 10 mod 10),
            ''0123456789'' ! (n mod 10)])"

definition in6addr_loopback :: "8 word list" where
  "in6addr_loopback = [0, 0, 0, 0, 0, 0, 0, 0, 0, 0, 0, 0, 0, 0, 0, 1]"

definition in6addr_any :: "8 word list" where
  "in6addr_any = [0, 0, 0, 0, 0, 0, 0, 0, 0, 0, 0, 0, 0, 0, 0, 0]"

definition render_into :: "string \<Rightarrow> int \<Rightarrow> int \<times> string" where
  "render_into text sz =
     (if sz < int (length text) + 1 then (- 28, []) else (0, text @ [CHR 0x00]))"

definition linux_ip4_addr :: "string \<Rightarrow> int \<Rightarrow> int \<times> sockaddr_in" where
  "linux_ip4_addr text p =
     (if text = ''127.0.0.1''
      then (0, \<lparr>sin_family = 2, sin_port = bswap16 (word_of_int p), sin_addr = le32 127 0 0 1\<rparr>)
      else (- 22, \<lparr>sin_family = 2, sin_port = bswap16 (word_of_int p), sin_addr = 0\<rparr>))"

definition linux_ip6_addr :: "string \<Rightarrow> int \<Rightarrow> int \<times> sockaddr_in6" where
  "linux_ip6_addr text p =
     (if text = ''::1''
      then (0, \<lparr>sin6_family = 10, sin6_port = bswap16 (word_of_int p), sin6_flowinfo = 0,
                sin6_addr = in6addr_loopback, sin6_scope_id = 0\<rparr>)
      else (- 22, \<lparr>sin6_family = 10, sin6_port = bswap16 (word_of_int p), sin6_flowinfo = 0,
                   sin6_addr = in6addr_any, sin6_scope_id = 0\<rparr>))"

definition linux_ip4_name :: "sockaddr_in \<Rightarrow> int \<Rightarrow> int \<times> string" where
  "linux_ip4_name sa sz =
     render_into
       (dec_u8 (unat (sin_addr sa AND 255)) @ ''.'' @
        dec_u8 (unat (drop_bit 8 (sin_addr sa) AND 255)) @ ''.'' @
        dec_u8 (unat (drop_bit 16 (sin_addr sa) AND 255)) @ ''.'' @
        dec_u8 (unat (drop_bit 24 (sin_addr sa) AND 255)))
       sz"

definition linux_ip6_name :: "sockaddr_in6 \<Rightarrow> int \<Rightarrow> int \<times> string" where
  "linux_ip6_name sa sz =
     (if sin6_addr sa = in6addr_loopback then render_into ''::1'' sz
      else if sin6_addr sa = in6addr_any then render_into ''::'' sz
      else (- 28, []))"

definition linux :: platform where
  "linux =
     \<lparr>uv_ip4_addr = linux_ip4_addr, uv_ip6_addr = linux_ip6_addr,
      uv_ip4_name = linux_ip4_name, uv_ip6_name = linux_ip6_name,
      ntohs = bswap16,
      as_sockaddr_in = linux_as_sockaddr_in, as_sockaddr_in6 = linux_as_sockaddr_in6\<rparr>"

text \<open>
  Two socket addresses as they lie in memory on this platform, and an accessor over small
  integer handles: handle 0 has the IPv4 address, handle 1 the IPv6 address, and every
  other handle fails with \<^verbatim>\<open>UV_EBADF\<close> (-9) after the IPv4 address has been written.
\<close>

definition loopback4_bytes :: "8 word list" where
  "loopback4_bytes = [2, 0, 0x1F, 0x90, 127, 0, 0, 1, 0, 0, 0, 0, 0, 0, 0, 0]"

definition loopback6_bytes :: "8 word list" where
  "loopback6_bytes =
     [10, 0, 0x01, 0xBB, 0, 0, 0, 0] @ in6addr_loopback @ [0, 0, 0, 0]"

definition sockname :: "nat \<Rightarrow> sockaddr_storage \<Rightarrow> int \<Rightarrow> int \<times> sockaddr_storage \<times> int" where
  "sockname handle ssto len =
     (if handle = 0 then (0, loopback4_bytes @ drop 16 ssto, 16)
      else if handle = 1 then (0, loopback6_bytes @ drop 28 ssto, 28)
      else (- 9, loopback4_bytes @ drop 16 ssto, 16))"

section \<open>Properties of Flags\<close>

lemma and_or_absorb_left: "(x OR y) AND x = (x :: 'w::len word)"
  by (rule bit_word_eqI) (auto simp: bit_and_iff bit_or_iff)

text \<open>
  C6, as the specification states it, fails: two enumerators with disjoint bit patterns
  may include one whose pattern is zero. With \<open>a\<close> of value 0 and \<open>b\<close> of value 1 the
  patterns are disjoint, yet \<^verbatim>\<open>(Flags(a) | b) & a\<close> holds 0 and converts to false.
\<close>

theorem C6_zero_enumerator_counterexample:
  "(0 :: 32 word) AND 1 = 0 \<and>
   \<not> to_bool (and_E (\<lambda>e. e) (or_E (\<lambda>e. e) (Flags_E (\<lambda>e. e) (0 :: 32 word)) 1) 0)"
  by (simp add: to_bool_def and_E_def or_E_def Flags_E_def Flags_Type_def toInnerType_def)

text \<open>
  C6 (amended): for every enumeration \<open>E\<close> and enumerators \<open>a\<close>, \<open>b\<close> with disjoint bit
  patterns, where the pattern of \<open>a\<close> is not zero: \<^verbatim>\<open>(Flags(a) | b) & a\<close> equals \<^verbatim>\<open>Flags(a)\<close>
  and converts to true, while \<^verbatim>\<open>Flags(a) & b\<close> converts to false. The same holds when the
  \<^verbatim>\<open>Flags\<close> overloads of the operators are used instead of the \<^verbatim>\<open>E\<close> overloads.
\<close>

theorem C6_combine_intersect:
  fixes E :: "'e \<Rightarrow> 'w::len word"
  assumes disjoint: "E a AND E b = 0"
    and nonzero: "E a \<noteq> 0"
  shows "and_E E (or_E E (Flags_E E a) b) a = Flags_E E a
       \<and> to_bool (and_E E (or_E E (Flags_E E a) b) a)
       \<and> \<not> to_bool (and_E E (Flags_E E a) b)
       \<and> and_Flags (or_Flags (Flags_E E a) (Flags_E E b)) (Flags_E E a) = Flags_E E a
       \<and> to_bool (and_Flags (or_Flags (Flags_E E a) (Flags_E E b)) (Flags_E E a))
       \<and> \<not> to_bool (and_Flags (Flags_E E a) (Flags_E E b))"
  using disjoint nonzero
  by (simp add: to_bool_def and_E_def or_E_def and_Flags_def or_Flags_def
      Flags_E_def Flags_Type_def toInnerType_def and_or_absorb_left)

theorem C6_combine_intersect_witness:
  "(1 :: 32 word) AND 2 = 0 \<and> (1 :: 32 word) \<noteq> 0
   \<and> and_E (\<lambda>e. e) (or_E (\<lambda>e. e) (Flags_E (\<lambda>e. e) (1 :: 32 word)) 2) 1 = Flags_E (\<lambda>e. e) 1
   \<and> to_bool (and_E (\<lambda>e. e) (or_E (\<lambda>e. e) (Flags_E (\<lambda>e. e) (1 :: 32 word)) 2) 1)
   \<and> \<not> to_bool (and_E (\<lambda>e. e) (Flags_E (\<lambda>e. e) (1 :: 32 word)) 2)"
proof -
  have d: "(\<lambda>e. e) (1 :: 32 word) AND (\<lambda>e. e) 2 = 0" by simp
  have n: "(\<lambda>e. e) (1 :: 32 word) \<noteq> 0" by simp
  show ?thesis
    using d n C6_combine_intersect [of "\<lambda>e. e" "1 :: 32 word" 2, OF d n] by blast
qed

text \<open>
  C7: a \<^verbatim>\<open>Flags<E>\<close> value converts to true exactly when its underlying integer is not
  zero; the default-constructed value converts to false; \<^verbatim>\<open>Flags(a)\<close> converts to true for
  an enumerator \<open>a\<close> whose bit pattern is not zero.
\<close>

theorem C7_bool_conversion:
  fixes f :: "'w::len Flags" and E :: "'e \<Rightarrow> 'w word"
  shows "(to_bool f \<longleftrightarrow> to_Type f \<noteq> 0)
       \<and> \<not> to_bool (Flags_empty :: 'w Flags)
       \<and> (E a \<noteq> 0 \<longrightarrow> to_bool (Flags_E E a))"
  by (simp add: to_bool_def to_Type_def Flags_empty_def Flags_E_def toInnerType_def)

theorem C7_bool_conversion_witness:
  "(to_bool (Flags_Type (5 :: 32 word)) \<longleftrightarrow> to_Type (Flags_Type (5 :: 32 word)) \<noteq> 0)
   \<and> \<not> to_bool (Flags_empty :: 32 Flags)
   \<and> (4 :: 32 word) \<noteq> 0 \<and> to_bool (Flags_E (\<lambda>e. e) (4 :: 32 word))"
  using C7_bool_conversion [of "Flags_Type (5 :: 32 word)" "\<lambda>e. e" "4 :: 32 word"]
  by (simp add: Flags_Type_def)

text \<open>
  C8: taking the raw underlying integer of a \<^verbatim>\<open>Flags<E>\<close> value and constructing a
  \<^verbatim>\<open>Flags<E>\<close> from it gives the value back.
\<close>

theorem C8_raw_round_trip:
  fixes f :: "'w::len Flags"
  shows "Flags_Type (to_Type f) = f"
  by (simp add: Flags_Type_def to_Type_def)

text \<open>
  C9: the empty set is an identity for \<^verbatim>\<open>|\<close> and an annihilator for \<^verbatim>\<open>&\<close>.
\<close>

theorem C9_empty_identity_annihilator:
  fixes f :: "'w::len Flags"
  shows "or_Flags f Flags_empty = f \<and> and_Flags f Flags_empty = Flags_empty"
  by (simp add: or_Flags_def and_Flags_def Flags_empty_def Flags_Type_def)

section \<open>Properties of FileDescriptor\<close>

text \<open>
  C10: the three standard-stream constants convert back to the raw descriptors 0, 1, 2.
\<close>

theorem C10_standard_streams:
  "STDIN = FileDescriptor 0 \<and> STDOUT = FileDescriptor 1 \<and> STDERR = FileDescriptor 2
   \<and> fd_to_Type STDIN = 0 \<and> fd_to_Type STDOUT = 1 \<and> fd_to_Type STDERR = 2"
  by (simp add: STDIN_def STDOUT_def STDERR_def fd_to_Type_def)

section \<open>Properties of the address templates\<close>

text \<open>Unfolding sets for the evaluation platform and for the two traits tables.\<close>

lemmas linux_defs = linux_def linux_ip4_addr_def linux_ip6_addr_def linux_ip4_name_def
  linux_ip6_name_def linux_as_sockaddr_in_def linux_as_sockaddr_in6_def render_into_def
  dec_u8_def bswap16_def le16_def le32_def byte_at_def loopback4_bytes_def loopback6_bytes_def
  in6addr_loopback_def in6addr_any_def

lemmas traits_defs = IpTraits_IPv4_def IpTraits_IPv6_def sockaddr_in_member_def
  sockaddr_in6_member_def

text \<open>
  The IPv6 instantiations. \<^verbatim>\<open>sockaddr_in6\<close> has no member \<^verbatim>\<open>sin_port\<close> (its port is
  \<^verbatim>\<open>sin6_port\<close>), so neither template can be instantiated with the tag \<^verbatim>\<open>IPv6\<close>: for every
  platform, buffer, length, accessor and handle the outcome is the lookup error.
\<close>

lemma address_IPv6_ill_formed:
  "address uv (IpTraits_IPv6 uv) sa len = Inl (No_member ''sin_port'')"
  by (simp add: address_def traits_defs)

lemma address_handle_IPv6_ill_formed:
  "address_handle uv (IpTraits_IPv6 uv) f handle ssto0 = Inl (No_member ''sin_port'')"
  by (simp add: address_handle_def traits_defs)

text \<open>
  The IPv4 instantiation of the storage overload: the rendered text and the port in host
  byte order when the render capability succeeds, the default \<open>Addr\<close> when it fails.
\<close>

lemma address_IPv4_success:
  "uv_ip4_name uv sa len = (0, name) \<Longrightarrow>
   address uv (IpTraits_IPv4 uv) sa len =
     Inr \<lparr>ip = std_string name, port = ucast (ntohs uv (sin_port sa))\<rparr>"
  by (simp add: address_def traits_defs mutant_def)

lemma address_IPv4_render_failure:
  "fst (uv_ip4_name uv sa len) \<noteq> 0 \<Longrightarrow>
   address uv (IpTraits_IPv4 uv) sa len = Inr Addr_default"
  by (auto simp: address_def traits_defs mutant_def Addr_default_def split: prod.splits)

text \<open>
  The IPv4 instantiation of the handle overload: the default \<open>Addr\<close> when the accessor
  fails, whatever it left in the storage; otherwise the storage overload on the storage
  viewed as a \<^verbatim>\<open>sockaddr_in\<close>.
\<close>

lemma address_handle_IPv4_failure:
  "f handle ssto0 sizeof_sockaddr_storage = (err, ssto, len) \<Longrightarrow> err \<noteq> 0 \<Longrightarrow>
   address_handle uv (IpTraits_IPv4 uv) f handle ssto0 = Inr Addr_default"
  by (simp add: address_handle_def traits_defs)

lemma address_handle_IPv4_success:
  "f handle ssto0 sizeof_sockaddr_storage = (0, ssto, len) \<Longrightarrow>
   address_handle uv (IpTraits_IPv4 uv) f handle ssto0 =
     address uv (IpTraits_IPv4 uv) (as_sockaddr_in uv ssto) len"
  by (simp add: address_handle_def traits_defs)

text \<open>
  The IPv4 instantiation does not read the family field: with any other value in it the
  result is the same, as long as the render primitive itself returns the same.
\<close>

lemma address_IPv4_ignores_family:
  "uv_ip4_name uv (sa\<lparr>sin_family := fam\<rparr>) len = uv_ip4_name uv sa len \<Longrightarrow>
   address uv (IpTraits_IPv4 uv) (sa\<lparr>sin_family := fam\<rparr>) len =
     address uv (IpTraits_IPv4 uv) sa len"
  by (simp add: address_def traits_defs split: prod.splits)

text \<open>
  The IPv4 round trip for any platform whose primitives keep libuv's contract: the
  construct primitive stores the port in network byte order, and the render primitive
  writes the text back, NUL-terminated.
\<close>

lemma std_string_terminated:
  "CHR 0x00 \<notin> set text \<Longrightarrow> std_string (text @ CHR 0x00 # rest) = text"
  by (simp add: std_string_def takeWhile_append)

lemma round_trip_IPv4:
  assumes "uv_ip4_addr uv text p = (0, sa)"
    and "ntohs uv (sin_port sa) = word_of_int p"
    and "uv_ip4_name uv sa len = (0, text @ CHR 0x00 # rest)"
    and "CHR 0x00 \<notin> set text"
    and "0 \<le> p" and "p < 65536"
  shows "address uv (IpTraits_IPv4 uv) (snd (AddrFunc (IpTraits_IPv4 uv) text p)) len =
           Inr \<lparr>ip = text, port = word_of_int p\<rparr>"
proof -
  have "snd (AddrFunc (IpTraits_IPv4 uv) text p) = sa"
    using assms(1) by (simp add: IpTraits_IPv4_def)
  moreover have "(ucast (word_of_int p :: 16 word) :: 32 word) = word_of_int p"
    using assms(5,6) by (simp add: unsigned_of_int take_bit_int_eq_self)
  ultimately show ?thesis
    using address_IPv4_success [OF assms(3)] assms(2,4)
    by (simp add: std_string_terminated)
qed

text \<open>
  C1 (the code at the failing input): the claim asks, for IPv4 and for IPv6, that a
  successful render gives an \<open>Addr\<close> with the rendered text and the port field in host byte
  order. On the evaluation platform the render capability succeeds on the \<^verbatim>\<open>sockaddr_in6\<close>
  of \<^verbatim>\<open>[::1]:443\<close> with the text \<^verbatim>\<open>::1\<close>, and the port field holds 443; \<^verbatim>\<open>address<IPv6>\<close> yields no
  \<open>Addr\<close>, because \<^verbatim>\<open>sin_port\<close> is not a member of \<^verbatim>\<open>sockaddr_in6\<close>. \<^verbatim>\<open>address<IPv4>\<close> on the
  \<^verbatim>\<open>sockaddr_in\<close> of \<^verbatim>\<open>127.0.0.1:8080\<close> yields the text and the port.
\<close>

theorem C1_IPv6_port_member_missing:
  "uv_ip6_name linux (linux_as_sockaddr_in6 loopback6_bytes) 46 = (0, ''::1'' @ [CHR 0x00])
   \<and> ntohs linux (sin6_port (linux_as_sockaddr_in6 loopback6_bytes)) = 443
   \<and> address linux (IpTraits_IPv6 linux) (linux_as_sockaddr_in6 loopback6_bytes) 46
       = Inl (No_member ''sin_port'')
   \<and> address linux (IpTraits_IPv4 linux) (linux_as_sockaddr_in loopback4_bytes) 16
       = Inr \<lparr>ip = ''127.0.0.1'', port = 8080\<rparr>"
  by (simp add: linux_defs traits_defs address_def mutant_def std_string_def)

text \<open>
  C2 (the code at the failing input): constructing from \<^verbatim>\<open>("127.0.0.1", 8080)\<close> with the
  IPv4 traits and rendering gives \<open>Addr\<close> \<^verbatim>\<open>{"127.0.0.1", 8080}\<close>; constructing from
  \<^verbatim>\<open>("::1", 443)\<close> with the IPv6 traits succeeds, and rendering does not give
  \<^verbatim>\<open>{"::1", 443}\<close>, for the reason shown under C1.
\<close>

theorem C2_IPv6_round_trip_fails:
  "fst (AddrFunc (IpTraits_IPv4 linux) ''127.0.0.1'' 8080) = 0
   \<and> address linux (IpTraits_IPv4 linux) (snd (AddrFunc (IpTraits_IPv4 linux) ''127.0.0.1'' 8080)) 16
       = Inr \<lparr>ip = ''127.0.0.1'', port = 8080\<rparr>
   \<and> fst (AddrFunc (IpTraits_IPv6 linux) ''::1'' 443) = 0
   \<and> address linux (IpTraits_IPv6 linux) (snd (AddrFunc (IpTraits_IPv6 linux) ''::1'' 443)) 46
       = Inl (No_member ''sin_port'')"
  by (simp add: linux_defs traits_defs address_def mutant_def std_string_def)

text \<open>
  C3 (the code at the failing input): the claim asks, for both family tags, that a failing
  accessor gives the default \<open>Addr\<close> whatever it wrote. The accessor fails on handle 7 with
  status -9 after writing the layout of \<^verbatim>\<open>127.0.0.1:8080\<close>. \<^verbatim>\<open>address<IPv4>(f, handle)\<close> returns
  the default \<open>Addr\<close>, empty text and port 0, although the storage holds an address that
  renders. \<^verbatim>\<open>address<IPv6>(f, handle)\<close> returns no \<open>Addr\<close> at all: it instantiates the storage
  overload, which names the member \<^verbatim>\<open>sin_port\<close> that \<^verbatim>\<open>sockaddr_in6\<close> does not have.
\<close>

theorem C3_IPv6_accessor_failure:
  "sockname 7 (replicate 128 0xAA) sizeof_sockaddr_storage
     = (- 9, loopback4_bytes @ replicate 112 0xAA, 16)
   \<and> address linux (IpTraits_IPv4 linux)
        (as_sockaddr_in linux (loopback4_bytes @ replicate 112 0xAA)) 16
       = Inr \<lparr>ip = ''127.0.0.1'', port = 8080\<rparr>
   \<and> address_handle linux (IpTraits_IPv4 linux) sockname 7 (replicate 128 0xAA)
       = Inr \<lparr>ip = [], port = 0\<rparr>
   \<and> address_handle linux (IpTraits_IPv6 linux) sockname 7 (replicate 128 0xAA)
       = Inl (No_member ''sin_port'')"
  by (simp add: linux_defs traits_defs address_def address_handle_def mutant_def
      std_string_def sockname_def sizeof_sockaddr_storage_def Addr_default_def)

text \<open>
  C4 (the code at the failing input): the claim asks, for both families, that a failing
  render gives the default \<open>Addr\<close> whatever the port field holds. With a destination too
  small for the text both render primitives fail. \<^verbatim>\<open>address<IPv4>(aptr, 4)\<close> on the
  \<^verbatim>\<open>sockaddr_in\<close> of \<^verbatim>\<open>127.0.0.1:8080\<close> returns the default \<open>Addr\<close>, empty text and port 0, although
  the port field holds 8080. \<^verbatim>\<open>address<IPv6>(aptr, 2)\<close> on the \<^verbatim>\<open>sockaddr_in6\<close> of \<^verbatim>\<open>[::1]:443\<close>
  returns no \<open>Addr\<close> at all, because the instantiation names the member \<^verbatim>\<open>sin_port\<close> that
  \<^verbatim>\<open>sockaddr_in6\<close> does not have.
\<close>

theorem C4_IPv6_render_failure:
  "fst (uv_ip4_name linux (linux_as_sockaddr_in loopback4_bytes) 4) = - 28
   \<and> ntohs linux (sin_port (linux_as_sockaddr_in loopback4_bytes)) = 8080
   \<and> address linux (IpTraits_IPv4 linux) (linux_as_sockaddr_in loopback4_bytes) 4
       = Inr \<lparr>ip = [], port = 0\<rparr>
   \<and> fst (uv_ip6_name linux (linux_as_sockaddr_in6 loopback6_bytes) 2) = - 28
   \<and> ntohs linux (sin6_port (linux_as_sockaddr_in6 loopback6_bytes)) = 443
   \<and> address linux (IpTraits_IPv6 linux) (linux_as_sockaddr_in6 loopback6_bytes) 2
       = Inl (No_member ''sin_port'')"
  by (simp add: linux_defs traits_defs address_def mutant_def std_string_def)

text \<open>
  C5 (the code at the failing input): the claim asks that the same storage contents are
  read as IPv4 under the tag \<^verbatim>\<open>IPv4\<close> and as IPv6 under the tag \<^verbatim>\<open>IPv6\<close>, the recorded family
  playing no role. The accessor succeeds on handle 1 and writes the layout of
  \<^verbatim>\<open>[::1]:443\<close>, family \<^verbatim>\<open>AF_INET6\<close> (10). Under the tag \<^verbatim>\<open>IPv4\<close> the storage is read as a
  \<^verbatim>\<open>sockaddr_in\<close> and gives \<^verbatim>\<open>{"0.0.0.0", 443}\<close>, the recorded family notwithstanding. Under the
  tag \<^verbatim>\<open>IPv6\<close> the render primitive would give \<^verbatim>\<open>::1\<close> and the port field holds 443, but
  \<^verbatim>\<open>address<IPv6>(f, handle)\<close> returns no \<open>Addr\<close>: the storage is not read as IPv6, because the
  instantiation names the member \<^verbatim>\<open>sin_port\<close> that \<^verbatim>\<open>sockaddr_in6\<close> does not have.
\<close>

theorem C5_IPv6_interpretation_missing:
  "sockname 1 (replicate 128 0xAA) sizeof_sockaddr_storage
     = (0, loopback6_bytes @ replicate 100 0xAA, 28)
   \<and> sin_family (as_sockaddr_in linux (loopback6_bytes @ replicate 100 0xAA)) = 10
   \<and> address_handle linux (IpTraits_IPv4 linux) sockname 1 (replicate 128 0xAA)
       = Inr \<lparr>ip = ''0.0.0.0'', port = 443\<rparr>
   \<and> uv_ip6_name linux (as_sockaddr_in6 linux (loopback6_bytes @ replicate 100 0xAA)) 28
       = (0, ''::1'' @ [CHR 0x00])
   \<and> ntohs linux (sin6_port (as_sockaddr_in6 linux (loopback6_bytes @ replicate 100 0xAA))) = 443
   \<and> address_handle linux (IpTraits_IPv6 linux) sockname 1 (replicate 128 0xAA)
       = Inl (No_member ''sin_port'')"
  by (simp add: linux_defs traits_defs address_def address_handle_def mutant_def
      std_string_def sockname_def sizeof_sockaddr_storage_def)

end
